theory Spec2Isabelle
  imports Complex_Main "HOL-Library.Multiset"
begin

section \<open>HealthScope: the risk prediction utilities of \<open>models/model_utils.py\<close>\<close>

text \<open>
  The development embeds the four functions of \<open>model_utils.py\<close> that carry decision
  logic: \<open>get_risk_classification\<close>, the three \<open>predict_*\<close> functions and
  \<open>get_feature_importance\<close>.

  Conventions of the embedding:
  \<^item> a Python float is a \<open>real\<close>: the comparisons of the source are comparisons of the
    values, and the literals \<open>0.33\<close> and \<open>0.67\<close> are read as the decimal fractions
    they denote (rounding of the literals and the non-numbers \<open>nan\<close>, \<open>inf\<close> are outside
    the embedding);
  \<^item> a Python exception is a value of type \<open>pyexc\<close>; a computation that may raise returns
    \<open>pyexc + 'a\<close>, \<open>Inl\<close> being the raised exception;
  \<^item> a Python object received as \<open>model\<close> is a value of type \<open>pyobj\<close>, which lists the
    attributes the code probes with \<open>hasattr\<close> or calls, each of them optional.
\<close>

subsection \<open>Risk banding\<close>

text \<open>
  \<^verbatim>\<open>
  def get_risk_classification(probability):
      if probability < 0.33:
          return "Low Risk", "#10B981", "Maintain healthy lifestyle and regular check-ups."
      elif probability < 0.67:
          return "Moderate Risk", "#F59E0B", "Consult healthcare provider and consider lifestyle modifications."
      else:
          return "High Risk", "#EF4444", "Immediate medical consultation recommended."
  \<close>
\<close>

definition get_risk_classification :: "real \<Rightarrow> string \<times> string \<times> string" where
  "get_risk_classification probability =
     (if probability < 0.33 then
        (''Low Risk'', ''#10B981'', ''Maintain healthy lifestyle and regular check-ups.'')
      else if probability < 0.67 then
        (''Moderate Risk'', ''#F59E0B'',
         ''Consult healthcare provider and consider lifestyle modifications.'')
      else
        (''High Risk'', ''#EF4444'', ''Immediate medical consultation recommended.''))"

text \<open>
  The order of the three band labels, Low Risk < Moderate Risk < High Risk, as a rank;
  a string that is no band label has no rank.
\<close>

definition band_rank :: "string \<Rightarrow> nat option" where
  "band_rank label =
     (if label = ''Low Risk'' then Some 0
      else if label = ''Moderate Risk'' then Some 1
      else if label = ''High Risk'' then Some 2
      else None)"

definition risk_label :: "real \<Rightarrow> string" where
  "risk_label p = fst (get_risk_classification p)"

subsection \<open>Python values, exceptions and \<open>try\<close>/\<open>except Exception\<close>\<close>

text \<open>
  An exception object is reduced to what the code observes of it: its class, which decides
  whether \<open>except Exception\<close> catches it, and what \<open>str(e)\<close> does with it. The class
  is the built-in class the exception is an instance of; \<open>KeyboardInterrupt\<close>,
  \<open>SystemExit\<close> and \<open>GeneratorExit\<close> derive from \<open>BaseException\<close> only, every other
  class listed derives from \<open>Exception\<close>. \<open>exc_args\<close> are the arguments the exception
  was built with, here strings. \<open>str_method\<close> is \<open>None\<close> for an exception that
  inherits \<open>__str__\<close> from its built-in class; for a class that defines \<open>__str__\<close>
  itself it is what that method does, return a string or raise.
\<close>

datatype exc_class =
    KeyError | IndexError | AttributeError | TypeError | ValueError | RuntimeError
  | KeyboardInterrupt | SystemExit | GeneratorExit

datatype pyexc = PyExc
  (exc_class: exc_class)
  (exc_args: "string list")
  (str_method: "(pyexc + string) option")

fun derives_from_Exception :: "exc_class \<Rightarrow> bool" where
  "derives_from_Exception KeyboardInterrupt = False"
| "derives_from_Exception SystemExit = False"
| "derives_from_Exception GeneratorExit = False"
| "derives_from_Exception _ = True"

definition isinstance_Exception :: "pyexc \<Rightarrow> bool" where
  "isinstance_Exception e = derives_from_Exception (exc_class e)"

definition squote :: char where
  "squote = CHR 0x27"

definition dquote :: char where
  "dquote = CHR 0x22"

definition backslash :: char where
  "backslash = CHR 0x5C"

definition hex_digit :: "nat \<Rightarrow> char" where
  "hex_digit n = (if n < 10 then char_of (48 + n) else char_of (87 + n))"

text \<open>
  \<open>repr\<close> of a string of ASCII characters: double quotes when the string has a single
  quote and no double quote, single quotes otherwise. The backslash and the chosen quote
  get a backslash in front; newline, carriage return and tab become \<open>\n\<close>, \<open>\r\<close>
  and \<open>\t\<close>; any other control character becomes \<open>\x\<close> and two hexadecimal digits.
  A byte above 127 is part of a printable character and is copied.
\<close>

definition repr_char :: "char \<Rightarrow> char \<Rightarrow> string" where
  "repr_char q c =
     (if c = backslash \<or> c = q then [backslash, c]
      else if c = CHR 0x0A then [backslash, CHR ''n'']
      else if c = CHR 0x0D then [backslash, CHR ''r'']
      else if c = CHR 0x09 then [backslash, CHR ''t'']
      else if (of_char c :: nat) < 32 \<or> (of_char c :: nat) = 127 then
        [backslash, CHR ''x'', hex_digit (of_char c div 16), hex_digit (of_char c mod 16)]
      else [c])"

definition py_repr :: "string \<Rightarrow> string" where
  "py_repr s =
     (let q = (if squote \<in> set s \<and> dquote \<notin> set s then dquote else squote)
      in [q] @ concat (map (repr_char q) s) @ [q])"

fun join_comma :: "string list \<Rightarrow> string" where
  "join_comma [] = []"
| "join_comma [x] = x"
| "join_comma (x # y # ys) = x @ '', '' @ join_comma (y # ys)"

text \<open>
  \<open>str(e)\<close>. A class with its own \<open>__str__\<close> does what that method does, which may
  be to raise. Otherwise: the empty string for no argument; the argument for one
  argument, and for a \<open>KeyError\<close> its \<open>repr\<close>; for several arguments the \<open>repr\<close> of
  the tuple of them.
\<close>

definition py_str :: "pyexc \<Rightarrow> pyexc + string" where
  "py_str e =
     (case str_method e of
        Some outcome \<Rightarrow> outcome
      | None \<Rightarrow>
          Inr (case exc_args e of
                 [] \<Rightarrow> []
               | [a] \<Rightarrow> if exc_class e = KeyError then py_repr a else a
               | a # b # cs \<Rightarrow> ''('' @ join_comma (map py_repr (a # b # cs)) @ '')''))"

text \<open>
  \<^verbatim>\<open>
  try:
      body
  except Exception as e:
      handler
  \<close>
  An exception that is no instance of \<open>Exception\<close> passes through to the caller, and so
  does an exception that the handler itself raises.
\<close>

definition try_except_Exception ::
  "(pyexc + 'a) \<Rightarrow> (pyexc \<Rightarrow> pyexc + 'a) \<Rightarrow> pyexc + 'a" where
  "try_except_Exception body handler =
     (case body of
        Inr v \<Rightarrow> Inr v
      | Inl e \<Rightarrow> if isinstance_Exception e then handler e else Inl e)"

text \<open>Sequencing of two steps, the first of which may raise.\<close>

definition and_then :: "(pyexc + 'a) \<Rightarrow> ('a \<Rightarrow> pyexc + 'b) \<Rightarrow> pyexc + 'b" where
  "and_then m f = (case m of Inl e \<Rightarrow> Inl e | Inr v \<Rightarrow> f v)"

text \<open>Decimal digits of a natural number, as \<open>str(i)\<close> and the f-string \<open>{i}\<close> give them.\<close>

fun string_of_nat :: "nat \<Rightarrow> string" where
  "string_of_nat n =
     (if n < 10 then [char_of (48 + n)]
      else string_of_nat (n div 10) @ [char_of (48 + n mod 10)])"

declare string_of_nat.simps [simp del]

subsection \<open>Feature vectors, one-row tables and model objects\<close>

text \<open>
  A feature value is numeric or categorical. The feature vector \<open>input_data\<close> is a
  dictionary; it is kept as the list of its items in insertion order, which is the column
  order of \<open>pd.DataFrame([input_data])\<close>. A table of one row is the list of its columns,
  each with the cell of that row.
\<close>

datatype scalar = Num real | Cat string

type_synonym pydict = "(string \<times> scalar) list"

type_synonym dataframe = "(string \<times> scalar) list"

definition DataFrame :: "pydict \<Rightarrow> dataframe" where
  "DataFrame input_data = input_data"

definition columns :: "dataframe \<Rightarrow> string list" where
  "columns df = map fst df"

text \<open>
  The text of the \<open>KeyError\<close> that pandas raises for missing column labels is not part
  of the repository and differs between versions of the library; it is a parameter, a
  function of the requested labels and of those not found.
\<close>

type_synonym pandas = "string list \<Rightarrow> string list \<Rightarrow> string"

text \<open>
  \<open>df[features]\<close> for a list of labels: the columns named, in the order of the list;
  \<open>KeyError\<close> when a label is no column of the table.
\<close>

definition getitem_columns :: "pandas \<Rightarrow> dataframe \<Rightarrow> string list \<Rightarrow> pyexc + dataframe" where
  "getitem_columns pd df features =
     (let missing = filter (\<lambda>n. n \<notin> set (columns df)) features
      in if missing \<noteq> [] then Inl (PyExc KeyError [pd features missing] None)
         else Inr (map (\<lambda>n. (n, the (map_of df n))) features))"

text \<open>
  A model object lists the attributes the code uses, each present or absent:
  \<open>predict\<close> and \<open>predict_proba\<close> (called on a table, they return an array or raise),
  \<open>named_steps\<close> (the dictionary of the stages of a pipeline),
  \<open>feature_importances_\<close> (a vector of scores) and \<open>get_feature_names_out\<close> (called
  without argument, it returns names or raises). \<open>class_name\<close> is the name of the
  object's type, which appears in the text of an \<open>AttributeError\<close>.
\<close>

datatype pyobj = PyObj
  (class_name: string)
  (predict_attr: "(dataframe \<Rightarrow> pyexc + int list) option")
  (predict_proba_attr: "(dataframe \<Rightarrow> pyexc + real list list) option")
  (named_steps_attr: "(string \<times> pyobj) list option")
  (feature_importances_attr: "real list option")
  (get_feature_names_out_attr: "(pyexc + string list) option")

definition py_None :: pyobj where
  "py_None = PyObj ''NoneType'' None None None None None"

definition no_attribute :: "pyobj \<Rightarrow> string \<Rightarrow> pyexc" where
  "no_attribute obj name =
     PyExc AttributeError
       [[squote] @ class_name obj @ [squote] @ '' object has no attribute ''
        @ [squote] @ name @ [squote]] None"

definition call_predict :: "pyobj \<Rightarrow> dataframe \<Rightarrow> pyexc + int list" where
  "call_predict model df =
     (case predict_attr model of
        None \<Rightarrow> Inl (no_attribute model ''predict'')
      | Some f \<Rightarrow> f df)"

definition call_predict_proba :: "pyobj \<Rightarrow> dataframe \<Rightarrow> pyexc + real list list" where
  "call_predict_proba model df =
     (case predict_proba_attr model of
        None \<Rightarrow> Inl (no_attribute model ''predict_proba'')
      | Some f \<Rightarrow> f df)"

text \<open>Indexing an array along its first axis; out of bounds it raises \<open>IndexError\<close>.\<close>

definition ndarray_getitem :: "'a list \<Rightarrow> nat \<Rightarrow> pyexc + 'a" where
  "ndarray_getitem a i =
     (if i < length a then Inr (a ! i)
      else Inl (PyExc IndexError
        [''index '' @ string_of_nat i @ '' is out of bounds for axis 0 with size ''
         @ string_of_nat (length a)] None))"

subsection \<open>Prediction\<close>

text \<open>
  The result dictionary has one of two shapes: \<open>success\<close> true with the five result
  fields, or \<open>success\<close> false with \<open>error\<close>.
\<close>

datatype prediction_result =
    success: Success (prediction: int) (probability: real) (risk_level: string)
      (color: string) (recommendation: string)
  | Failure (error: string)

text \<open>
  \<^verbatim>\<open>
  def predict_heart_disease(model, features, input_data):
      try:
          df = pd.DataFrame([input_data])[features]
          prediction = model.predict(df)[0]
          probability = model.predict_proba(df)[0][1]
          risk_level, color, recommendation = get_risk_classification(probability)
          return {'prediction': int(prediction), 'probability': float(probability),
                  'risk_level': risk_level, 'color': color,
                  'recommendation': recommendation, 'success': True}
      except Exception as e:
          return {'success': False, 'error': str(e)}
  \<close>
  \<open>predict_heart_disease_try\<close> is the block under \<open>try\<close>. On an integer class label
  \<open>int\<close> is the identity, and so is \<open>float\<close> on a float.
\<close>

definition predict_heart_disease_try ::
  "pandas \<Rightarrow> pyobj \<Rightarrow> string list \<Rightarrow> pydict \<Rightarrow> pyexc + prediction_result" where
  "predict_heart_disease_try pd model features input_data =
     and_then (getitem_columns pd (DataFrame input_data) features) (\<lambda>df.
     and_then (and_then (call_predict model df) (\<lambda>a. ndarray_getitem a 0)) (\<lambda>prediction.
     and_then (and_then (and_then (call_predict_proba model df) (\<lambda>a. ndarray_getitem a 0))
                 (\<lambda>r. ndarray_getitem r 1)) (\<lambda>probability.
       (case get_risk_classification probability of
          (risk_level', color', recommendation') \<Rightarrow>
            Inr (Success prediction probability risk_level' color' recommendation')))))"

definition predict_heart_disease ::
  "pandas \<Rightarrow> pyobj \<Rightarrow> string list \<Rightarrow> pydict \<Rightarrow> pyexc + prediction_result" where
  "predict_heart_disease pd model features input_data =
     try_except_Exception (predict_heart_disease_try pd model features input_data)
       (\<lambda>e. and_then (py_str e) (\<lambda>text. Inr (Failure text)))"

text \<open>\<open>predict_diabetes\<close>, from its own source text (lines 119 to 154).\<close>

definition predict_diabetes_try ::
  "pandas \<Rightarrow> pyobj \<Rightarrow> string list \<Rightarrow> pydict \<Rightarrow> pyexc + prediction_result" where
  "predict_diabetes_try pd model features input_data =
     and_then (getitem_columns pd (DataFrame input_data) features) (\<lambda>df.
     and_then (and_then (call_predict model df) (\<lambda>a. ndarray_getitem a 0)) (\<lambda>prediction.
     and_then (and_then (and_then (call_predict_proba model df) (\<lambda>a. ndarray_getitem a 0))
                 (\<lambda>r. ndarray_getitem r 1)) (\<lambda>probability.
       (case get_risk_classification probability of
          (risk_level', color', recommendation') \<Rightarrow>
            Inr (Success prediction probability risk_level' color' recommendation')))))"

definition predict_diabetes ::
  "pandas \<Rightarrow> pyobj \<Rightarrow> string list \<Rightarrow> pydict \<Rightarrow> pyexc + prediction_result" where
  "predict_diabetes pd model features input_data =
     try_except_Exception (predict_diabetes_try pd model features input_data)
       (\<lambda>e. and_then (py_str e) (\<lambda>text. Inr (Failure text)))"

text \<open>
  \<open>predict_pcos\<close> passes the whole one-row table to the model:
  \<^verbatim>\<open>df = pd.DataFrame([input_data])\<close>
\<close>

definition predict_pcos_try :: "pyobj \<Rightarrow> pydict \<Rightarrow> pyexc + prediction_result" where
  "predict_pcos_try model input_data =
     (let df = DataFrame input_data in
     and_then (and_then (call_predict model df) (\<lambda>a. ndarray_getitem a 0)) (\<lambda>prediction.
     and_then (and_then (and_then (call_predict_proba model df) (\<lambda>a. ndarray_getitem a 0))
                 (\<lambda>r. ndarray_getitem r 1)) (\<lambda>probability.
       (case get_risk_classification probability of
          (risk_level', color', recommendation') \<Rightarrow>
            Inr (Success prediction probability risk_level' color' recommendation')))))"

definition predict_pcos :: "pyobj \<Rightarrow> pydict \<Rightarrow> pyexc + prediction_result" where
  "predict_pcos model input_data =
     try_except_Exception (predict_pcos_try model input_data)
       (\<lambda>e. and_then (py_str e) (\<lambda>text. Inr (Failure text)))"

subsection \<open>Feature importance\<close>

text \<open>
  \<open>importance_list.sort(key=lambda x: x[1], reverse=True)\<close>: a stable sort by
  decreasing key, so entries of equal key keep the order they had. It is modelled by
  insertion from the right, each entry going in front of the first one whose key is not
  greater.
\<close>

fun insort_desc :: "('a \<Rightarrow> real) \<Rightarrow> 'a \<Rightarrow> 'a list \<Rightarrow> 'a list" where
  "insort_desc key x [] = [x]"
| "insort_desc key x (y # ys) =
     (if key y \<le> key x then x # y # ys else y # insort_desc key x ys)"

fun sort_desc :: "('a \<Rightarrow> real) \<Rightarrow> 'a list \<Rightarrow> 'a list" where
  "sort_desc key [] = []"
| "sort_desc key (x # xs) = insort_desc key x (sort_desc key xs)"

text \<open>
  The slice \<open>xs[:n]\<close>: the first \<open>n\<close> entries, and for a negative \<open>n\<close> all but the
  last \<open>-n\<close>.
\<close>

definition py_slice_to :: "'a list \<Rightarrow> int \<Rightarrow> 'a list" where
  "py_slice_to xs n = (if 0 \<le> n then take (nat n) xs else take (length xs - nat (- n)) xs)"

text \<open>\<^verbatim>\<open>[f"Feature_{i}" for i in range(len(importances))]\<close>\<close>

definition synthetic_names :: "nat \<Rightarrow> string list" where
  "synthetic_names n = map (\<lambda>i. ''Feature_'' @ string_of_nat i) [0..<n]"

text \<open>
  Lines 208 to 211, the stage whose importances are read:
  \<^verbatim>\<open>
  if hasattr(model, 'named_steps'):
      classifier = model.named_steps.get('classifier', model)
  else:
      classifier = model
  \<close>
\<close>

definition classification_stage :: "pyobj \<Rightarrow> pyobj" where
  "classification_stage model =
     (case named_steps_attr model of
        Some named_steps \<Rightarrow>
          (case map_of named_steps ''classifier'' of Some c \<Rightarrow> c | None \<Rightarrow> model)
      | None \<Rightarrow> model)"

text \<open>
  Lines 218 to 223, the names in use after the preprocessing stage was asked; the bare
  \<open>except\<close> swallows whatever the call raises, an absent method included:
  \<^verbatim>\<open>
  if hasattr(model, 'named_steps') and 'preprocessor' in model.named_steps:
      try:
          transformed_names = model.named_steps['preprocessor'].get_feature_names_out()
          feature_names = transformed_names
      except:
          pass
  \<close>
\<close>

definition names_after_preprocessor :: "pyobj \<Rightarrow> string list \<Rightarrow> string list" where
  "names_after_preprocessor model feature_names =
     (case named_steps_attr model of
        Some named_steps \<Rightarrow>
          (case map_of named_steps ''preprocessor'' of
             Some preprocessor \<Rightarrow>
               (case get_feature_names_out_attr preprocessor of
                  Some (Inr transformed_names) \<Rightarrow> transformed_names
                | Some (Inl e) \<Rightarrow> feature_names
                | None \<Rightarrow> feature_names)
           | None \<Rightarrow> feature_names)
      | None \<Rightarrow> feature_names)"

text \<open>
  \<^verbatim>\<open>
  def get_feature_importance(model, feature_names, top_n=10):
      try:
          ...
          if hasattr(classifier, 'feature_importances_'):
              importances = classifier.feature_importances_
              ...
              if len(feature_names) != len(importances):
                  feature_names = [f"Feature_{i}" for i in range(len(importances))]
              importance_list = list(zip(feature_names, importances))
              importance_list.sort(key=lambda x: x[1], reverse=True)
              return importance_list[:top_n]
          else:
              return []
      except Exception as e:
          return []
  \<close>
\<close>

definition get_feature_importance_try ::
  "pyobj \<Rightarrow> string list \<Rightarrow> int \<Rightarrow> pyexc + (string \<times> real) list" where
  "get_feature_importance_try model feature_names top_n =
     (let classifier = classification_stage model
      in case feature_importances_attr classifier of
           Some importances \<Rightarrow>
             (let feature_names' = names_after_preprocessor model feature_names;
                  feature_names'' =
                    (if length feature_names' \<noteq> length importances
                     then synthetic_names (length importances) else feature_names');
                  importance_list = sort_desc snd (zip feature_names'' importances)
              in Inr (py_slice_to importance_list top_n))
         | None \<Rightarrow> Inr [])"

definition get_feature_importance ::
  "pyobj \<Rightarrow> string list \<Rightarrow> int \<Rightarrow> pyexc + (string \<times> real) list" where
  "get_feature_importance model feature_names top_n =
     try_except_Exception (get_feature_importance_try model feature_names top_n)
       (\<lambda>e. Inr [])"

subsection \<open>Predicates of the properties\<close>

text \<open>The row that \<open>df[features]\<close> hands to the model when every name is a column.\<close>

definition selected_row :: "pydict \<Rightarrow> string list \<Rightarrow> dataframe" where
  "selected_row input_data features = map (\<lambda>n. (n, the (map_of input_data n))) features"

text \<open>
  On the table \<open>df\<close> the model answers as a binary classifier: \<open>predict\<close> returns an
  array that starts with a class 0 or 1, \<open>predict_proba\<close> an array whose first row has
  the probability of the positive class, in [0,1], at index 1.
\<close>

definition binary_output_on :: "pyobj \<Rightarrow> dataframe \<Rightarrow> bool" where
  "binary_output_on model df =
     (case call_predict model df of
        Inr (k # ks) \<Rightarrow>
          (k = 0 \<or> k = 1) \<and>
          (case call_predict_proba model df of
             Inr ((p0 # p1 # ps) # rows) \<Rightarrow> 0 \<le> p1 \<and> p1 \<le> 1
           | _ \<Rightarrow> False)
      | _ \<Rightarrow> False)"

definition binary_result :: "prediction_result \<Rightarrow> bool" where
  "binary_result r \<longleftrightarrow>
     success r \<and> 0 \<le> probability r \<and> probability r \<le> 1 \<and>
     (prediction r = 0 \<or> prediction r = 1)"

text \<open>
  An exception the handler turns into a failure result: an instance of \<open>Exception\<close>
  whose \<open>str\<close> returns.
\<close>

definition reportable :: "pyexc \<Rightarrow> bool" where
  "reportable e =
     (isinstance_Exception e \<and> (case py_str e of Inr text \<Rightarrow> True | Inl e' \<Rightarrow> False))"

text \<open>
  Called on the table \<open>df\<close>, neither operation of the model raises anything but such
  an exception.
\<close>

definition raises_only_reportable_on :: "pyobj \<Rightarrow> dataframe \<Rightarrow> bool" where
  "raises_only_reportable_on model df =
     ((case call_predict model df of Inl e \<Rightarrow> reportable e | Inr a \<Rightarrow> True) \<and>
      (case call_predict_proba model df of Inl e \<Rightarrow> reportable e | Inr a \<Rightarrow> True))"

text \<open>
  The names paired with the scores (lines 218 to 227): the names after the preprocessing
  stage was asked, or the synthetic names when their number is not that of the scores.
\<close>

definition names_in_use :: "pyobj \<Rightarrow> string list \<Rightarrow> real list \<Rightarrow> string list" where
  "names_in_use model feature_names importances =
     (if length (names_after_preprocessor model feature_names) \<noteq> length importances
      then synthetic_names (length importances)
      else names_after_preprocessor model feature_names)"

definition descending :: "(string \<times> real) list \<Rightarrow> bool" where
  "descending xs = sorted_wrt (\<lambda>a b. snd b \<le> snd a) xs"

definition strictly_descending :: "(string \<times> real) list \<Rightarrow> bool" where
  "strictly_descending xs = sorted_wrt (\<lambda>a b. snd b < snd a) xs"

subsection \<open>Sample objects\<close>

text \<open>
  A fitted forest that answers class \<open>k\<close> with probability \<open>p\<close> on every table and has
  the importance vector \<open>importances\<close>; a column transformer that reports the names
  \<open>names\<close>; a pipeline of two stages; a model whose \<open>predict\<close> raises \<open>e\<close>.
\<close>

definition forest :: "int \<Rightarrow> real \<Rightarrow> real list \<Rightarrow> pyobj" where
  "forest k p importances =
     PyObj ''RandomForestClassifier'' (Some (\<lambda>df. Inr [k])) (Some (\<lambda>df. Inr [[1 - p, p]]))
       None (Some importances) None"

definition column_transformer :: "string list \<Rightarrow> pyobj" where
  "column_transformer names =
     PyObj ''ColumnTransformer'' None None None None (Some (Inr names))"

definition pipeline :: "pyobj \<Rightarrow> pyobj \<Rightarrow> pyobj" where
  "pipeline preprocessor classifier =
     PyObj ''Pipeline'' (predict_attr classifier) (predict_proba_attr classifier)
       (Some [(''preprocessor'', preprocessor), (''classifier'', classifier)]) None None"

definition raising_model :: "pyexc \<Rightarrow> pyobj" where
  "raising_model e =
     PyObj ''Model'' (Some (\<lambda>df. Inl e)) (Some (\<lambda>df. Inl e)) None None None"

text \<open>
  Three exceptions: a \<open>ValueError\<close> with a message; a \<open>KeyboardInterrupt\<close>; and an
  instance of a subclass of \<open>ValueError\<close> whose \<open>__str__\<close> raises a \<open>RuntimeError\<close>.
\<close>

definition bad_input :: pyexc where
  "bad_input = PyExc ValueError [''bad input''] None"

definition interrupt :: pyexc where
  "interrupt = PyExc KeyboardInterrupt [] None"

definition no_text :: pyexc where
  "no_text = PyExc ValueError [] (Some (Inl (PyExc RuntimeError [''no text''] None)))"

text \<open>A sample of the text of the \<open>KeyError\<close>: the labels not found, as a list.\<close>

definition sample_pandas :: pandas where
  "sample_pandas key missing = ''['' @ join_comma (map py_repr missing) @ ''] not in index''"

section \<open>Properties of the risk banding\<close>

text \<open>
  Claim C1. For every probability \<open>p\<close>, \<open>get_risk_classification p\<close> is the Low Risk
  triple when \<open>p < 0.33\<close>, the Moderate Risk triple when \<open>0.33 \<le> p < 0.67\<close> and the
  High Risk triple when \<open>p \<ge> 0.67\<close>; at \<open>p = 0.33\<close> it is Moderate Risk and at
  \<open>p = 0.67\<close> High Risk.
\<close>

theorem risk_bands:
  "(p < 0.33 \<longrightarrow> get_risk_classification p =
      (''Low Risk'', ''#10B981'', ''Maintain healthy lifestyle and regular check-ups.''))
   \<and> (0.33 \<le> p \<and> p < 0.67 \<longrightarrow> get_risk_classification p =
      (''Moderate Risk'', ''#F59E0B'',
       ''Consult healthcare provider and consider lifestyle modifications.''))
   \<and> (0.67 \<le> p \<longrightarrow> get_risk_classification p =
      (''High Risk'', ''#EF4444'', ''Immediate medical consultation recommended.''))
   \<and> get_risk_classification 0.33 =
      (''Moderate Risk'', ''#F59E0B'',
       ''Consult healthcare provider and consider lifestyle modifications.'')
   \<and> get_risk_classification 0.67 =
      (''High Risk'', ''#EF4444'', ''Immediate medical consultation recommended.'')"
  by (simp add: get_risk_classification_def)

theorem risk_bands_witness:
  "(0.2::real) < 0.33 \<and> get_risk_classification 0.2 =
      (''Low Risk'', ''#10B981'', ''Maintain healthy lifestyle and regular check-ups.'')
   \<and> (0.33::real) \<le> 0.5 \<and> (0.5::real) < 0.67 \<and> get_risk_classification 0.5 =
      (''Moderate Risk'', ''#F59E0B'',
       ''Consult healthcare provider and consider lifestyle modifications.'')
   \<and> (0.67::real) \<le> 0.9 \<and> get_risk_classification 0.9 =
      (''High Risk'', ''#EF4444'', ''Immediate medical consultation recommended.'')"
  using risk_bands [of "0.2"] risk_bands [of "0.5"] risk_bands [of "0.9"]
  by simp

text \<open>
  Claim C8. \<open>get_risk_classification\<close> returns one of the three bands for every real
  input, with no failing branch; an input below 0 gets Low Risk and an input above 1 gets
  High Risk, by the same two comparisons.
\<close>

theorem risk_total:
  "get_risk_classification p \<in>
     {(''Low Risk'', ''#10B981'', ''Maintain healthy lifestyle and regular check-ups.''),
      (''Moderate Risk'', ''#F59E0B'',
       ''Consult healthcare provider and consider lifestyle modifications.''),
      (''High Risk'', ''#EF4444'', ''Immediate medical consultation recommended.'')}
   \<and> (p < 0 \<longrightarrow> risk_label p = ''Low Risk'')
   \<and> (1 < p \<longrightarrow> risk_label p = ''High Risk'')"
  by (simp add: get_risk_classification_def risk_label_def)

theorem risk_total_witness:
  "(-3::real) < 0 \<and> risk_label (-3) = ''Low Risk''
   \<and> (1::real) < 7.5 \<and> risk_label 7.5 = ''High Risk''"
  using risk_total [of "-3"] risk_total [of "7.5"] by simp

lemma band_rank_label:
  "band_rank (risk_label p) = Some (if p < 0.33 then 0 else if p < 0.67 then 1 else 2)"
  by (simp add: band_rank_def risk_label_def get_risk_classification_def)

text \<open>
  Claim C9. The banding is monotonic: for \<open>p \<le> q\<close> the band of \<open>p\<close> is at most the
  band of \<open>q\<close> in the order Low Risk < Moderate Risk < High Risk. On [0,1) the three
  bands are exactly the half-open intervals [0, 0.33), [0.33, 0.67) and [0.67, 1).
\<close>

theorem risk_monotone:
  "(p \<le> q \<longrightarrow>
      (\<exists>i j. band_rank (risk_label p) = Some i \<and> band_rank (risk_label q) = Some j \<and> i \<le> j))
   \<and> {p. 0 \<le> p \<and> p < 1 \<and> risk_label p = ''Low Risk''} = {0 ..< 0.33}
   \<and> {p. 0 \<le> p \<and> p < 1 \<and> risk_label p = ''Moderate Risk''} = {0.33 ..< 0.67}
   \<and> {p. 0 \<le> p \<and> p < 1 \<and> risk_label p = ''High Risk''} = {0.67 ..< 1}"
proof (intro conjI impI)
  assume "p \<le> q"
  then show "\<exists>i j. band_rank (risk_label p) = Some i \<and> band_rank (risk_label q) = Some j
      \<and> i \<le> j"
    by (simp add: band_rank_label)
next
  show "{p. 0 \<le> p \<and> p < 1 \<and> risk_label p = ''Low Risk''} = {0 ..< 0.33}"
    by (auto simp: risk_label_def get_risk_classification_def)
next
  show "{p. 0 \<le> p \<and> p < 1 \<and> risk_label p = ''Moderate Risk''} = {0.33 ..< 0.67}"
    by (auto simp: risk_label_def get_risk_classification_def)
next
  show "{p. 0 \<le> p \<and> p < 1 \<and> risk_label p = ''High Risk''} = {0.67 ..< 1}"
    by (auto simp: risk_label_def get_risk_classification_def split: if_splits)
qed

theorem risk_monotone_witness:
  "(0.1::real) \<le> 0.5 \<and> band_rank (risk_label 0.1) = Some 0
   \<and> band_rank (risk_label 0.5) = Some 1"
  using risk_monotone [of "0.1" "0.5"]
  by (simp add: band_rank_def risk_label_def get_risk_classification_def)

section \<open>Properties of the prediction functions\<close>

subsection \<open>Steps of the \<open>try\<close> block\<close>

lemma and_then_Inr_iff: "and_then m f = Inr r \<longleftrightarrow> (\<exists>v. m = Inr v \<and> f v = Inr r)"
  by (cases m) (simp_all add: and_then_def)

lemma and_then_Inl_iff:
  "and_then m f = Inl e \<longleftrightarrow> m = Inl e \<or> (\<exists>v. m = Inr v \<and> f v = Inl e)"
  by (cases m) (simp_all add: and_then_def)

lemma getitem_columns_present:
  "set features \<subseteq> set (columns (DataFrame input_data)) \<Longrightarrow>
   getitem_columns pd (DataFrame input_data) features = Inr (selected_row input_data features)"
  by (auto simp: getitem_columns_def selected_row_def DataFrame_def Let_def filter_empty_conv)

lemma getitem_columns_missing:
  "\<not> set features \<subseteq> set (columns (DataFrame input_data)) \<Longrightarrow>
   \<exists>msg. getitem_columns pd (DataFrame input_data) features
            = Inl (PyExc KeyError [msg] None)"
  by (auto simp: getitem_columns_def Let_def filter_empty_conv)

text \<open>
  An exception of a built-in class that derives from \<open>Exception\<close> is caught and has a
  \<open>str\<close>; such are the exceptions raised by the table and by indexing.
\<close>

lemma builtin_reportable: "derives_from_Exception c \<Longrightarrow> reportable (PyExc c args None)"
  by (simp add: reportable_def isinstance_Exception_def py_str_def)

lemma getitem_columns_Inl:
  "getitem_columns pd df features = Inl e \<Longrightarrow> reportable e"
  by (auto simp: getitem_columns_def builtin_reportable Let_def split: if_splits)

lemma ndarray_getitem_Inl: "ndarray_getitem a i = Inl e \<Longrightarrow> reportable e"
  by (auto simp: ndarray_getitem_def builtin_reportable split: if_splits)

lemma py_str_KeyError: "py_str (PyExc KeyError [msg] None) = Inr (py_repr msg)"
  by (simp add: py_str_def)

text \<open>
  \<open>str\<close> and \<open>repr\<close> on samples: a newline is escaped; a \<open>KeyError\<close> without
  argument has the empty \<open>str\<close>; two arguments are shown as a tuple.
\<close>

lemma py_repr_newline:
  "py_repr [CHR ''a'', CHR 0x0A, CHR ''b'']
     = [squote, CHR ''a'', backslash, CHR ''n'', CHR ''b'', squote]"
  by (simp add: py_repr_def repr_char_def squote_def dquote_def backslash_def Let_def)

lemma py_str_no_argument: "py_str (PyExc KeyError [] None) = Inr []"
  by (simp add: py_str_def)

lemma py_str_two_arguments:
  "py_str (PyExc ValueError [''a'', ''b''] None)
     = Inr (''('' @ py_repr ''a'' @ '', '' @ py_repr ''b'' @ '')'')"
  by (simp add: py_str_def)

lemma py_repr_nonempty: "py_repr s \<noteq> []"
  by (simp add: py_repr_def Let_def)

lemma classified_result:
  "(case get_risk_classification p of (a, b, c) \<Rightarrow> Inr (Success k p a b c)) = Inr r \<Longrightarrow>
   success r \<and> get_risk_classification (probability r) = (risk_level r, color r, recommendation r)"
  by (cases "get_risk_classification p") auto

lemma classified_not_Inl:
  "(case get_risk_classification p of (a, b, c) \<Rightarrow> Inr (Success k p a b c)) \<noteq> Inl e"
  by (cases "get_risk_classification p") auto

text \<open>The value of the steps after the table is built, when the model answers.\<close>

lemma model_steps_value:
  assumes "call_predict model df = Inr (k # ks)"
    and "call_predict_proba model df = Inr ((p0 # p1 # ps) # rows)"
  shows "and_then (and_then (call_predict model df) (\<lambda>a. ndarray_getitem a 0)) (\<lambda>prediction.
     and_then (and_then (and_then (call_predict_proba model df) (\<lambda>a. ndarray_getitem a 0))
                 (\<lambda>r. ndarray_getitem r 1)) (\<lambda>probability.
       (case get_risk_classification probability of
          (risk_level', color', recommendation') \<Rightarrow>
            Inr (Success prediction probability risk_level' color' recommendation'))))
     = Inr (Success k p1 (fst (get_risk_classification p1))
          (fst (snd (get_risk_classification p1))) (snd (snd (get_risk_classification p1))))"
  using assms by (simp add: and_then_def ndarray_getitem_def split: prod.splits)

lemma heart_value:
  assumes "set features \<subseteq> set (columns (DataFrame input_data))"
    and "call_predict model (selected_row input_data features) = Inr (k # ks)"
    and "call_predict_proba model (selected_row input_data features)
           = Inr ((p0 # p1 # ps) # rows)"
  shows "predict_heart_disease pd model features input_data =
     Inr (Success k p1 (fst (get_risk_classification p1))
          (fst (snd (get_risk_classification p1))) (snd (snd (get_risk_classification p1))))"
  unfolding predict_heart_disease_def predict_heart_disease_try_def
    getitem_columns_present [OF assms(1)]
  using model_steps_value [OF assms(2,3)]
  by (simp add: and_then_def try_except_Exception_def)

lemma diabetes_value:
  assumes "set features \<subseteq> set (columns (DataFrame input_data))"
    and "call_predict model (selected_row input_data features) = Inr (k # ks)"
    and "call_predict_proba model (selected_row input_data features)
           = Inr ((p0 # p1 # ps) # rows)"
  shows "predict_diabetes pd model features input_data =
     Inr (Success k p1 (fst (get_risk_classification p1))
          (fst (snd (get_risk_classification p1))) (snd (snd (get_risk_classification p1))))"
  unfolding predict_diabetes_def predict_diabetes_try_def
    getitem_columns_present [OF assms(1)]
  using model_steps_value [OF assms(2,3)]
  by (simp add: and_then_def try_except_Exception_def)

lemma pcos_value:
  assumes "call_predict model (DataFrame input_data) = Inr (k # ks)"
    and "call_predict_proba model (DataFrame input_data) = Inr ((p0 # p1 # ps) # rows)"
  shows "predict_pcos model input_data =
     Inr (Success k p1 (fst (get_risk_classification p1))
          (fst (snd (get_risk_classification p1))) (snd (snd (get_risk_classification p1))))"
  unfolding predict_pcos_def predict_pcos_try_def Let_def
  using model_steps_value [OF assms]
  by (simp add: try_except_Exception_def)

lemma heart_try_Inr:
  "predict_heart_disease_try pd model features input_data = Inr r \<Longrightarrow>
   get_risk_classification (probability r) = (risk_level r, color r, recommendation r)"
  unfolding predict_heart_disease_try_def and_then_Inr_iff
  by (blast dest: classified_result)

lemma diabetes_try_Inr:
  "predict_diabetes_try pd model features input_data = Inr r \<Longrightarrow>
   get_risk_classification (probability r) = (risk_level r, color r, recommendation r)"
  unfolding predict_diabetes_try_def and_then_Inr_iff
  by (blast dest: classified_result)

lemma pcos_try_Inr:
  "predict_pcos_try model input_data = Inr r \<Longrightarrow>
   get_risk_classification (probability r) = (risk_level r, color r, recommendation r)"
  unfolding predict_pcos_try_def Let_def and_then_Inr_iff
  by (blast dest: classified_result)

text \<open>
  An exception raised by the steps that use the model comes from an operation of the
  model or from indexing.
\<close>

lemma and_then_Inr: "and_then (Inr v) f = f v"
  by (simp add: and_then_def)

lemma model_steps_Inl:
  assumes "raises_only_reportable_on model df"
    and "and_then (and_then (call_predict model df) (\<lambda>a. ndarray_getitem a 0)) (\<lambda>prediction.
     and_then (and_then (and_then (call_predict_proba model df) (\<lambda>a. ndarray_getitem a 0))
                 (\<lambda>r. ndarray_getitem r 1)) (\<lambda>probability.
       (case get_risk_classification probability of
          (risk_level', color', recommendation') \<Rightarrow>
            Inr (Success prediction probability risk_level' color' recommendation')))) = Inl e"
  shows "reportable e"
proof -
  have p: "call_predict model df = Inl e \<Longrightarrow> reportable e"
    using assms(1) by (simp add: raises_only_reportable_on_def)
  have q: "call_predict_proba model df = Inl e \<Longrightarrow> reportable e"
    using assms(1) by (simp add: raises_only_reportable_on_def split: sum.splits)
  from assms(2) show ?thesis
    unfolding and_then_Inl_iff
    by (blast dest: p q ndarray_getitem_Inl elim: classified_not_Inl [THEN notE])
qed

lemma heart_try_Inl:
  assumes "raises_only_reportable_on model (selected_row input_data features)"
    and "predict_heart_disease_try pd model features input_data = Inl e"
  shows "reportable e"
proof (cases "set features \<subseteq> set (columns (DataFrame input_data))")
  case True
  from assms(2) show ?thesis
    unfolding predict_heart_disease_try_def getitem_columns_present [OF True] and_then_Inr
    by (rule model_steps_Inl [OF assms(1)])
next
  case False
  from getitem_columns_missing [OF False] obtain m where
    "getitem_columns pd (DataFrame input_data) features = Inl (PyExc KeyError [m] None)"
    by blast
  with assms(2) have "e = PyExc KeyError [m] None"
    by (simp add: predict_heart_disease_try_def and_then_def)
  then show ?thesis by (simp add: builtin_reportable)
qed

lemma diabetes_try_Inl:
  assumes "raises_only_reportable_on model (selected_row input_data features)"
    and "predict_diabetes_try pd model features input_data = Inl e"
  shows "reportable e"
proof (cases "set features \<subseteq> set (columns (DataFrame input_data))")
  case True
  from assms(2) show ?thesis
    unfolding predict_diabetes_try_def getitem_columns_present [OF True] and_then_Inr
    by (rule model_steps_Inl [OF assms(1)])
next
  case False
  from getitem_columns_missing [OF False] obtain m where
    "getitem_columns pd (DataFrame input_data) features = Inl (PyExc KeyError [m] None)"
    by blast
  with assms(2) have "e = PyExc KeyError [m] None"
    by (simp add: predict_diabetes_try_def and_then_def)
  then show ?thesis by (simp add: builtin_reportable)
qed

lemma pcos_try_Inl:
  assumes "raises_only_reportable_on model (DataFrame input_data)"
    and "predict_pcos_try model input_data = Inl e"
  shows "reportable e"
proof -
  from assms(2) show ?thesis
    unfolding predict_pcos_try_def Let_def
    by (rule model_steps_Inl [OF assms(1)])
qed

text \<open>The \<open>try\<close> statement with the handler of the three functions.\<close>

lemma try_except_Inr: "body = Inr r \<Longrightarrow> try_except_Exception body h = Inr r"
  by (simp add: try_except_Exception_def)

lemma try_except_caught:
  "body = Inl e \<Longrightarrow> isinstance_Exception e \<Longrightarrow> try_except_Exception body h = h e"
  by (simp add: try_except_Exception_def)

lemma try_except_passes:
  "body = Inl e \<Longrightarrow> \<not> isinstance_Exception e \<Longrightarrow> try_except_Exception body h = Inl e"
  by (simp add: try_except_Exception_def)

lemma try_except_success:
  "try_except_Exception body (\<lambda>e. and_then (py_str e) (\<lambda>text. Inr (Failure text))) = Inr r
   \<Longrightarrow> success r \<Longrightarrow> body = Inr r"
  by (cases body) (auto simp: try_except_Exception_def and_then_Inr_iff split: if_splits)

lemma try_except_returns:
  assumes "\<And>e. body = Inl e \<Longrightarrow> reportable e"
  shows "\<exists>r. try_except_Exception body (\<lambda>e. and_then (py_str e) (\<lambda>text. Inr (Failure text)))
           = Inr r"
proof (cases body)
  case (Inl e)
  from assms [OF Inl] obtain msg where "isinstance_Exception e" "py_str e = Inr msg"
    by (auto simp: reportable_def split: sum.splits)
  with Inl show ?thesis by (simp add: try_except_Exception_def and_then_def)
next
  case (Inr r)
  then show ?thesis by (simp add: try_except_Exception_def)
qed

text \<open>The sample forest on a sample feature vector.\<close>

lemma sample_columns:
  "set [''age'', ''chol'']
     \<subseteq> set (columns (DataFrame [(''chol'', Num 233), (''age'', Num 63), (''sex'', Cat ''F'')]))"
  by (simp add: columns_def DataFrame_def)

lemma forest_predict: "call_predict (forest k p imps) df = Inr [k]"
  by (simp add: call_predict_def forest_def)

lemma forest_predict_proba: "call_predict_proba (forest k p imps) df = Inr [[1 - p, p]]"
  by (simp add: call_predict_proba_def forest_def)

lemma forest_binary:
  "k = 0 \<or> k = 1 \<Longrightarrow> 0 \<le> p \<Longrightarrow> p \<le> 1 \<Longrightarrow> binary_output_on (forest k p imps) df"
  by (simp add: binary_output_on_def forest_predict forest_predict_proba)

lemma binary_output_onD:
  assumes "binary_output_on model df"
  obtains k ks p0 p1 ps rows where
    "call_predict model df = Inr (k # ks)" "k = 0 \<or> k = 1"
    "call_predict_proba model df = Inr ((p0 # p1 # ps) # rows)" "0 \<le> p1" "p1 \<le> 1"
proof (cases "call_predict model df")
  case (Inl e)
  with assms show ?thesis by (simp add: binary_output_on_def)
next
  case labels: (Inr a)
  show ?thesis
  proof (cases "call_predict_proba model df")
    case (Inl e)
    with assms labels show ?thesis
      by (simp add: binary_output_on_def split: list.splits)
  next
    case (Inr b)
    with assms labels that show ?thesis
      by (auto simp: binary_output_on_def split: list.splits)
  qed
qed

lemma sample_missing:
  "\<not> set [''age'', ''chol''] \<subseteq> set (columns (DataFrame [(''age'', Num 63)]))"
  by (simp add: columns_def DataFrame_def)

lemma sample_age:
  "set [''age''] \<subseteq> set (columns (DataFrame [(''age'', Num 63)]))"
  by (simp add: columns_def DataFrame_def)

text \<open>A model whose operations raise \<open>e\<close>: the block under \<open>try\<close> raises \<open>e\<close>.\<close>

lemma raising_model_try:
  "set features \<subseteq> set (columns (DataFrame input_data)) \<Longrightarrow>
   predict_heart_disease_try pd (raising_model e) features input_data = Inl e"
  "set features \<subseteq> set (columns (DataFrame input_data)) \<Longrightarrow>
   predict_diabetes_try pd (raising_model e) features input_data = Inl e"
  "predict_pcos_try (raising_model e) input_data = Inl e"
  by (simp_all add: predict_heart_disease_try_def predict_diabetes_try_def predict_pcos_try_def
      getitem_columns_present and_then_def call_predict_def raising_model_def)

lemma raising_model_calls:
  "call_predict (raising_model e) df = Inl e"
  "call_predict_proba (raising_model e) df = Inl e"
  by (simp_all add: call_predict_def call_predict_proba_def raising_model_def)

lemma sample_exceptions:
  "isinstance_Exception bad_input" "py_str bad_input = Inr ''bad input''"
  "\<not> isinstance_Exception interrupt"
  "isinstance_Exception no_text" "py_str no_text = Inl (PyExc RuntimeError [''no text''] None)"
  by (simp_all add: bad_input_def interrupt_def no_text_def isinstance_Exception_def py_str_def)

text \<open>
  An absent model: the lookup of \<open>predict\<close> on \<open>None\<close> raises \<open>AttributeError\<close>, and
  the text of that error is the error string of the result.
\<close>

lemma none_model_fails:
  "predict_pcos py_None input_data
     = Inr (Failure ([squote] @ ''NoneType'' @ [squote] @ '' object has no attribute ''
         @ [squote] @ ''predict'' @ [squote]))"
  "set features \<subseteq> set (columns (DataFrame input_data)) \<Longrightarrow>
   predict_heart_disease pd py_None features input_data
     = Inr (Failure ([squote] @ ''NoneType'' @ [squote] @ '' object has no attribute ''
         @ [squote] @ ''predict'' @ [squote]))"
  "set features \<subseteq> set (columns (DataFrame input_data)) \<Longrightarrow>
   predict_diabetes pd py_None features input_data
     = Inr (Failure ([squote] @ ''NoneType'' @ [squote] @ '' object has no attribute ''
         @ [squote] @ ''predict'' @ [squote]))"
  by (simp_all add: predict_pcos_def predict_pcos_try_def predict_heart_disease_def
      predict_heart_disease_try_def predict_diabetes_def predict_diabetes_try_def
      getitem_columns_present and_then_def call_predict_def py_None_def no_attribute_def
      try_except_Exception_def isinstance_Exception_def py_str_def)

subsection \<open>Success, failure and what reaches the caller\<close>

text \<open>
  Claim C2. When every name of the feature list is a key of the feature vector, and the
  model answers the selected row with a class 0 or 1 and a positive-class probability in
  [0,1], \<open>predict_heart_disease\<close> and \<open>predict_diabetes\<close> return a result with
  \<open>success\<close> true, a probability in [0,1] and a prediction 0 or 1.
\<close>

theorem predict_succeeds:
  assumes "set features \<subseteq> set (columns (DataFrame input_data))"
    and "binary_output_on model (selected_row input_data features)"
  shows "(\<exists>r. predict_heart_disease pd model features input_data = Inr r \<and> binary_result r)
       \<and> (\<exists>r. predict_diabetes pd model features input_data = Inr r \<and> binary_result r)"
proof -
  from assms(2) obtain k ks p0 p1 ps rows where
    k: "call_predict model (selected_row input_data features) = Inr (k # ks)"
    and k01: "k = 0 \<or> k = 1"
    and p: "call_predict_proba model (selected_row input_data features)
              = Inr ((p0 # p1 # ps) # rows)"
    and p01: "0 \<le> p1" "p1 \<le> 1"
    by (rule binary_output_onD)
  show ?thesis
    using k01 p01
    by (simp add: heart_value [OF assms(1) k p] diabetes_value [OF assms(1) k p]
        binary_result_def)
qed

theorem predict_succeeds_witness:
  "set [''age'', ''chol'']
     \<subseteq> set (columns (DataFrame [(''chol'', Num 233), (''age'', Num 63), (''sex'', Cat ''F'')]))
   \<and> binary_output_on (forest 1 0.82 [])
       (selected_row [(''chol'', Num 233), (''age'', Num 63), (''sex'', Cat ''F'')]
          [''age'', ''chol''])
   \<and> (\<exists>r. predict_heart_disease sample_pandas (forest 1 0.82 []) [''age'', ''chol'']
            [(''chol'', Num 233), (''age'', Num 63), (''sex'', Cat ''F'')] = Inr r
          \<and> binary_result r)
   \<and> (\<exists>r. predict_diabetes sample_pandas (forest 1 0.82 []) [''age'', ''chol'']
            [(''chol'', Num 233), (''age'', Num 63), (''sex'', Cat ''F'')] = Inr r
          \<and> binary_result r)"
proof -
  have b: "binary_output_on (forest 1 0.82 [])
       (selected_row [(''chol'', Num 233), (''age'', Num 63), (''sex'', Cat ''F'')]
          [''age'', ''chol''])"
    by (rule forest_binary) simp_all
  show ?thesis
    using predict_succeeds [OF sample_columns b, of sample_pandas] sample_columns b
    by blast
qed

text \<open>
  Claim C3. When a name of the feature list is no key of the feature vector,
  \<open>predict_heart_disease\<close> and \<open>predict_diabetes\<close> return to the caller, whatever the
  model is, a result with \<open>success\<close> false and a non-empty error string.
\<close>

theorem predict_missing_feature:
  assumes "\<not> set features \<subseteq> set (columns (DataFrame input_data))"
  shows "(\<exists>msg. predict_heart_disease pd model features input_data = Inr (Failure msg)
            \<and> msg \<noteq> [])
       \<and> (\<exists>msg. predict_diabetes pd model features input_data = Inr (Failure msg)
            \<and> msg \<noteq> [])"
proof -
  from getitem_columns_missing [OF assms] obtain m where
    "getitem_columns pd (DataFrame input_data) features = Inl (PyExc KeyError [m] None)"
    by blast
  then show ?thesis
    by (simp add: predict_heart_disease_def predict_heart_disease_try_def
        predict_diabetes_def predict_diabetes_try_def and_then_def try_except_Exception_def
        isinstance_Exception_def py_str_KeyError py_repr_nonempty)
qed

theorem predict_missing_feature_witness:
  "\<not> set [''age'', ''chol''] \<subseteq> set (columns (DataFrame [(''age'', Num 63)]))
   \<and> (\<exists>msg. predict_heart_disease sample_pandas (forest 1 0.82 []) [''age'', ''chol'']
              [(''age'', Num 63)] = Inr (Failure msg) \<and> msg \<noteq> [])
   \<and> (\<exists>msg. predict_diabetes sample_pandas (forest 1 0.82 []) [''age'', ''chol'']
              [(''age'', Num 63)] = Inr (Failure msg) \<and> msg \<noteq> [])"
  using predict_missing_feature [OF sample_missing, of sample_pandas "forest 1 0.82 []"]
    sample_missing
  by blast

text \<open>
  Claim C4, as amended. Each of \<open>predict_heart_disease\<close>, \<open>predict_diabetes\<close> and
  \<open>predict_pcos\<close> catches every exception raised under its \<open>try\<close> that is an instance
  of \<open>Exception\<close> and, when \<open>str\<close> of that exception returns, returns the failure
  result whose error string is that \<open>str\<close>. An exception that is no instance of
  \<open>Exception\<close> is not caught and reaches the caller as it was raised, and so does an
  exception that \<open>str\<close> raises in the handler. When the operations of the model,
  called on the table the function passes to them, raise nothing but instances of
  \<open>Exception\<close> whose \<open>str\<close> returns (an absent model, whose attribute lookup raises
  \<open>AttributeError\<close>, included), the function returns a result and nothing reaches the
  caller as an exception.
\<close>

theorem predict_catches_Exception:
  "(predict_heart_disease_try pd model features input_data = Inl e \<and> isinstance_Exception e
      \<and> py_str e = Inr text \<longrightarrow>
      predict_heart_disease pd model features input_data = Inr (Failure text))
   \<and> (predict_diabetes_try pd model features input_data = Inl e \<and> isinstance_Exception e
      \<and> py_str e = Inr text \<longrightarrow>
      predict_diabetes pd model features input_data = Inr (Failure text))
   \<and> (predict_pcos_try model input_data = Inl e \<and> isinstance_Exception e
      \<and> py_str e = Inr text \<longrightarrow>
      predict_pcos model input_data = Inr (Failure text))
   \<and> (predict_heart_disease_try pd model features input_data = Inl e
      \<and> \<not> isinstance_Exception e \<longrightarrow>
      predict_heart_disease pd model features input_data = Inl e)
   \<and> (predict_diabetes_try pd model features input_data = Inl e
      \<and> \<not> isinstance_Exception e \<longrightarrow>
      predict_diabetes pd model features input_data = Inl e)
   \<and> (predict_pcos_try model input_data = Inl e \<and> \<not> isinstance_Exception e \<longrightarrow>
      predict_pcos model input_data = Inl e)
   \<and> (predict_heart_disease_try pd model features input_data = Inl e \<and> isinstance_Exception e
      \<and> py_str e = Inl e' \<longrightarrow>
      predict_heart_disease pd model features input_data = Inl e')
   \<and> (predict_diabetes_try pd model features input_data = Inl e \<and> isinstance_Exception e
      \<and> py_str e = Inl e' \<longrightarrow>
      predict_diabetes pd model features input_data = Inl e')
   \<and> (predict_pcos_try model input_data = Inl e \<and> isinstance_Exception e
      \<and> py_str e = Inl e' \<longrightarrow>
      predict_pcos model input_data = Inl e')
   \<and> (raises_only_reportable_on model (selected_row input_data features) \<longrightarrow>
        (\<exists>r. predict_heart_disease pd model features input_data = Inr r)
      \<and> (\<exists>r. predict_diabetes pd model features input_data = Inr r))
   \<and> (raises_only_reportable_on model (DataFrame input_data) \<longrightarrow>
        (\<exists>r. predict_pcos model input_data = Inr r))"
proof (intro conjI impI)
  assume "predict_heart_disease_try pd model features input_data = Inl e
    \<and> isinstance_Exception e \<and> py_str e = Inr text"
  then show "predict_heart_disease pd model features input_data = Inr (Failure text)"
    by (simp add: predict_heart_disease_def try_except_caught and_then_Inr)
next
  assume "predict_diabetes_try pd model features input_data = Inl e
    \<and> isinstance_Exception e \<and> py_str e = Inr text"
  then show "predict_diabetes pd model features input_data = Inr (Failure text)"
    by (simp add: predict_diabetes_def try_except_caught and_then_Inr)
next
  assume "predict_pcos_try model input_data = Inl e
    \<and> isinstance_Exception e \<and> py_str e = Inr text"
  then show "predict_pcos model input_data = Inr (Failure text)"
    by (simp add: predict_pcos_def try_except_caught and_then_Inr)
next
  assume "predict_heart_disease_try pd model features input_data = Inl e
    \<and> \<not> isinstance_Exception e"
  then show "predict_heart_disease pd model features input_data = Inl e"
    by (simp add: predict_heart_disease_def try_except_passes)
next
  assume "predict_diabetes_try pd model features input_data = Inl e
    \<and> \<not> isinstance_Exception e"
  then show "predict_diabetes pd model features input_data = Inl e"
    by (simp add: predict_diabetes_def try_except_passes)
next
  assume "predict_pcos_try model input_data = Inl e \<and> \<not> isinstance_Exception e"
  then show "predict_pcos model input_data = Inl e"
    by (simp add: predict_pcos_def try_except_passes)
next
  assume "predict_heart_disease_try pd model features input_data = Inl e
    \<and> isinstance_Exception e \<and> py_str e = Inl e'"
  then show "predict_heart_disease pd model features input_data = Inl e'"
    by (simp add: predict_heart_disease_def try_except_caught and_then_def)
next
  assume "predict_diabetes_try pd model features input_data = Inl e
    \<and> isinstance_Exception e \<and> py_str e = Inl e'"
  then show "predict_diabetes pd model features input_data = Inl e'"
    by (simp add: predict_diabetes_def try_except_caught and_then_def)
next
  assume "predict_pcos_try model input_data = Inl e
    \<and> isinstance_Exception e \<and> py_str e = Inl e'"
  then show "predict_pcos model input_data = Inl e'"
    by (simp add: predict_pcos_def try_except_caught and_then_def)
next
  assume r: "raises_only_reportable_on model (selected_row input_data features)"
  show "\<exists>r. predict_heart_disease pd model features input_data = Inr r"
    unfolding predict_heart_disease_def
    by (rule try_except_returns) (rule heart_try_Inl [OF r])
  show "\<exists>r. predict_diabetes pd model features input_data = Inr r"
    unfolding predict_diabetes_def
    by (rule try_except_returns) (rule diabetes_try_Inl [OF r])
next
  assume r: "raises_only_reportable_on model (DataFrame input_data)"
  show "\<exists>r. predict_pcos model input_data = Inr r"
    unfolding predict_pcos_def
    by (rule try_except_returns) (rule pcos_try_Inl [OF r])
qed

theorem predict_catches_Exception_witness:
  "predict_heart_disease_try sample_pandas (raising_model bad_input) [''age''] [(''age'', Num 63)]
       = Inl bad_input
   \<and> isinstance_Exception bad_input \<and> py_str bad_input = Inr ''bad input''
   \<and> raises_only_reportable_on (raising_model bad_input)
        (selected_row [(''age'', Num 63)] [''age''])
   \<and> raises_only_reportable_on (raising_model bad_input) (DataFrame [(''age'', Num 63)])
   \<and> predict_heart_disease sample_pandas (raising_model bad_input) [''age''] [(''age'', Num 63)]
       = Inr (Failure ''bad input'')
   \<and> predict_diabetes sample_pandas (raising_model bad_input) [''age''] [(''age'', Num 63)]
       = Inr (Failure ''bad input'')
   \<and> predict_pcos (raising_model bad_input) [(''age'', Num 63)] = Inr (Failure ''bad input'')
   \<and> predict_heart_disease_try sample_pandas (raising_model interrupt) [''age'']
        [(''age'', Num 63)] = Inl interrupt
   \<and> \<not> isinstance_Exception interrupt
   \<and> predict_heart_disease sample_pandas (raising_model interrupt) [''age''] [(''age'', Num 63)]
       = Inl interrupt
   \<and> predict_diabetes sample_pandas (raising_model interrupt) [''age''] [(''age'', Num 63)]
       = Inl interrupt
   \<and> predict_pcos (raising_model interrupt) [(''age'', Num 63)] = Inl interrupt
   \<and> predict_heart_disease_try sample_pandas (raising_model no_text) [''age'']
        [(''age'', Num 63)] = Inl no_text
   \<and> isinstance_Exception no_text
   \<and> py_str no_text = Inl (PyExc RuntimeError [''no text''] None)
   \<and> predict_heart_disease sample_pandas (raising_model no_text) [''age''] [(''age'', Num 63)]
       = Inl (PyExc RuntimeError [''no text''] None)
   \<and> predict_diabetes sample_pandas (raising_model no_text) [''age''] [(''age'', Num 63)]
       = Inl (PyExc RuntimeError [''no text''] None)
   \<and> predict_pcos (raising_model no_text) [(''age'', Num 63)]
       = Inl (PyExc RuntimeError [''no text''] None)"
proof -
  have r: "raises_only_reportable_on (raising_model bad_input) df" for df
    by (simp add: raises_only_reportable_on_def raising_model_calls reportable_def
        sample_exceptions)
  note t = raising_model_try(1,2) [OF sample_age] raising_model_try(3)
  show ?thesis
    using predict_catches_Exception [of sample_pandas "raising_model bad_input" "[''age'']"
        "[(''age'', Num 63)]" bad_input "''bad input''"]
      predict_catches_Exception [of sample_pandas "raising_model interrupt" "[''age'']"
        "[(''age'', Num 63)]" interrupt]
      predict_catches_Exception [of sample_pandas "raising_model no_text" "[''age'']"
        "[(''age'', Num 63)]" no_text _ "PyExc RuntimeError [''no text''] None"]
      r
    by (simp add: t sample_exceptions)
qed

text \<open>
  The claim as stated fails: a model whose \<open>predict\<close> raises \<open>KeyboardInterrupt\<close>,
  which is no instance of \<open>Exception\<close>, makes each of the three functions raise it;
  and a model that raises an exception whose \<open>__str__\<close> raises makes the handler raise.
\<close>

theorem predict_propagates_counterexample:
  "predict_heart_disease sample_pandas (raising_model interrupt) [''age''] [(''age'', Num 63)]
     = Inl interrupt
   \<and> predict_diabetes sample_pandas (raising_model interrupt) [''age''] [(''age'', Num 63)]
     = Inl interrupt
   \<and> predict_pcos (raising_model interrupt) [(''age'', Num 63)] = Inl interrupt
   \<and> interrupt = PyExc KeyboardInterrupt [] None
   \<and> predict_pcos (raising_model no_text) [(''age'', Num 63)]
     = Inl (PyExc RuntimeError [''no text''] None)"
  by (simp add: predict_heart_disease_def predict_diabetes_def predict_pcos_def
      raising_model_try(1,2) [OF sample_age] raising_model_try(3) try_except_passes
      try_except_caught and_then_def sample_exceptions interrupt_def [symmetric])

text \<open>
  Claim C5. For every result \<open>r\<close> with \<open>success\<close> true that \<open>predict_heart_disease\<close>,
  \<open>predict_diabetes\<close> or \<open>predict_pcos\<close> returns, \<open>get_risk_classification\<close> of the
  probability of \<open>r\<close> is the triple of the risk level, color and recommendation of \<open>r\<close>.
  A classifier that answers class 1 with probability 0.82 yields prediction 1,
  probability 0.82, High Risk, #EF4444 and the recommendation of that band.
\<close>

theorem predict_round_trip:
  "(predict_heart_disease pd model features input_data = Inr r \<and> success r \<longrightarrow>
      get_risk_classification (probability r) = (risk_level r, color r, recommendation r))
   \<and> (predict_diabetes pd model features input_data = Inr r \<and> success r \<longrightarrow>
      get_risk_classification (probability r) = (risk_level r, color r, recommendation r))
   \<and> (predict_pcos model input_data = Inr r \<and> success r \<longrightarrow>
      get_risk_classification (probability r) = (risk_level r, color r, recommendation r))
   \<and> (set features \<subseteq> set (columns (DataFrame input_data))
      \<and> call_predict model (selected_row input_data features) = Inr [1]
      \<and> call_predict_proba model (selected_row input_data features) = Inr [[p0, 0.82]] \<longrightarrow>
      predict_heart_disease pd model features input_data =
        Inr (Success 1 0.82 ''High Risk'' ''#EF4444''
               ''Immediate medical consultation recommended.''))"
proof (intro conjI impI)
  assume "predict_heart_disease pd model features input_data = Inr r \<and> success r"
  then show "get_risk_classification (probability r) = (risk_level r, color r, recommendation r)"
    unfolding predict_heart_disease_def
    by (blast dest: try_except_success heart_try_Inr)
next
  assume "predict_diabetes pd model features input_data = Inr r \<and> success r"
  then show "get_risk_classification (probability r) = (risk_level r, color r, recommendation r)"
    unfolding predict_diabetes_def
    by (blast dest: try_except_success diabetes_try_Inr)
next
  assume "predict_pcos model input_data = Inr r \<and> success r"
  then show "get_risk_classification (probability r) = (risk_level r, color r, recommendation r)"
    unfolding predict_pcos_def
    by (blast dest: try_except_success pcos_try_Inr)
next
  assume a: "set features \<subseteq> set (columns (DataFrame input_data))
      \<and> call_predict model (selected_row input_data features) = Inr [1]
      \<and> call_predict_proba model (selected_row input_data features) = Inr [[p0, 0.82]]"
  have "predict_heart_disease pd model features input_data =
     Inr (Success 1 0.82 (fst (get_risk_classification 0.82))
          (fst (snd (get_risk_classification 0.82))) (snd (snd (get_risk_classification 0.82))))"
    using a by (intro heart_value) blast+
  then show "predict_heart_disease pd model features input_data =
        Inr (Success 1 0.82 ''High Risk'' ''#EF4444''
               ''Immediate medical consultation recommended.'')"
    by (simp add: get_risk_classification_def)
qed

theorem predict_round_trip_witness:
  "predict_heart_disease sample_pandas (forest 1 0.82 []) [''age'', ''chol'']
      [(''chol'', Num 233), (''age'', Num 63), (''sex'', Cat ''F'')]
     = Inr (Success 1 0.82 ''High Risk'' ''#EF4444''
               ''Immediate medical consultation recommended.'')
   \<and> success (Success 1 0.82 ''High Risk'' ''#EF4444''
               ''Immediate medical consultation recommended.'')
   \<and> get_risk_classification 0.82
     = (''High Risk'', ''#EF4444'', ''Immediate medical consultation recommended.'')"
proof -
  let ?d = "[(''chol'', Num 233), (''age'', Num 63), (''sex'', Cat ''F'')]"
  let ?r = "Success 1 0.82 ''High Risk'' ''#EF4444''
               ''Immediate medical consultation recommended.''"
  have v: "predict_heart_disease sample_pandas (forest 1 0.82 []) [''age'', ''chol''] ?d = Inr ?r"
    using predict_round_trip [of sample_pandas "forest 1 0.82 []" "[''age'', ''chol'']" ?d ?r
        "1 - 0.82"] sample_columns
      forest_predict [of 1 "0.82" "[]"] forest_predict_proba [of 1 "0.82" "[]"]
    by simp
  show ?thesis
    using predict_round_trip [of sample_pandas "forest 1 0.82 []" "[''age'', ''chol'']" ?d ?r] v
    by simp
qed

text \<open>
  Claim C10. \<open>predict_heart_disease\<close> and \<open>predict_diabetes\<close> are the same function:
  on every model, feature list and feature vector they return the same result, or raise
  the same exception.
\<close>

theorem predict_same:
  "predict_heart_disease pd model features input_data
     = predict_diabetes pd model features input_data"
  by (simp add: predict_heart_disease_def predict_heart_disease_try_def
        predict_diabetes_def predict_diabetes_try_def)

section \<open>Properties of the feature importance extraction\<close>

subsection \<open>The sort and the slice\<close>

lemma set_insort_desc: "set (insort_desc key x xs) = insert x (set xs)"
  by (induction xs) auto

lemma mset_insort_desc: "mset (insort_desc key x xs) = add_mset x (mset xs)"
  by (induction xs) auto

lemma mset_sort_desc: "mset (sort_desc key xs) = mset xs"
  by (induction xs) (auto simp: mset_insort_desc)

lemma set_sort_desc: "set (sort_desc key xs) = set xs"
  by (induction xs) (auto simp: set_insort_desc)

lemma length_sort_desc: "length (sort_desc key xs) = length xs"
  using mset_sort_desc [of key xs] by (metis size_mset)

lemma sorted_insort_desc:
  "sorted_wrt (\<lambda>a b. key b \<le> key a) xs \<Longrightarrow>
   sorted_wrt (\<lambda>a b. key b \<le> key a) (insort_desc key x xs)"
  by (induction xs) (auto simp: set_insort_desc)

lemma sorted_sort_desc: "sorted_wrt (\<lambda>a b. key b \<le> key a) (sort_desc key xs)"
  by (induction xs) (auto simp: sorted_insort_desc)

text \<open>The sort is stable: the entries of one key keep their order.\<close>

lemma filter_insort_desc:
  assumes "sorted_wrt (\<lambda>a b. key b \<le> key a) xs"
  shows "filter (\<lambda>y. key y = k) (insort_desc key x xs) =
     (if key x = k then x # filter (\<lambda>y. key y = k) xs else filter (\<lambda>y. key y = k) xs)"
  using assms by (induction xs) (auto simp: filter_empty_conv)

lemma sort_desc_stable:
  "filter (\<lambda>y. key y = k) (sort_desc key xs) = filter (\<lambda>y. key y = k) xs"
  by (induction xs) (simp_all add: filter_insort_desc sorted_sort_desc)

lemma descending_slice: "descending xs \<Longrightarrow> descending (py_slice_to xs n)"
  by (simp add: descending_def py_slice_to_def)

lemma length_slice: "0 \<le> n \<Longrightarrow> int (length (py_slice_to xs n)) \<le> n"
  by (simp add: py_slice_to_def)

lemma set_slice: "set (py_slice_to xs n) \<subseteq> set xs"
  by (simp add: py_slice_to_def set_take_subset)

lemma slice_all: "int (length xs) \<le> n \<Longrightarrow> py_slice_to xs n = xs"
  by (simp add: py_slice_to_def)

lemma synthetic_names_nth:
  "i < n \<Longrightarrow> synthetic_names n ! i = ''Feature_'' @ string_of_nat i"
  by (simp add: synthetic_names_def)

lemma length_synthetic_names: "length (synthetic_names n) = n"
  by (simp add: synthetic_names_def)

subsection \<open>The function as one case distinction\<close>

text \<open>No step under the \<open>try\<close> raises, so the handler of the function is never entered.\<close>

lemma get_feature_importance_eq:
  "get_feature_importance model feature_names top_n =
     (case feature_importances_attr (classification_stage model) of
        Some importances \<Rightarrow>
          Inr (py_slice_to (sort_desc snd (zip
            (if length (names_after_preprocessor model feature_names) \<noteq> length importances
             then synthetic_names (length importances)
             else names_after_preprocessor model feature_names) importances)) top_n)
      | None \<Rightarrow> Inr [])"
  by (simp add: get_feature_importance_def get_feature_importance_try_def
      try_except_Exception_def Let_def split: option.splits)

lemma forest_stage: "classification_stage (forest k p imps) = forest k p imps"
  by (simp add: classification_stage_def forest_def)

lemma forest_names: "names_after_preprocessor (forest k p imps) names = names"
  by (simp add: names_after_preprocessor_def forest_def)

lemma forest_importances: "feature_importances_attr (forest k p imps) = Some imps"
  by (simp add: forest_def)

lemma tied_value:
  "get_feature_importance (forest 1 0.82 [0.5, 0.5]) [''age'', ''chol''] 10
     = Inr [(''age'', 0.5), (''chol'', 0.5)]"
  by code_simp

lemma pipeline_value:
  "get_feature_importance
      (pipeline (column_transformer [''num__age'', ''cat__sex_F'']) (forest 1 0.82 [0.7, 0.3]))
      [''age''] 10
   = Inr [(''num__age'', 0.7), (''cat__sex_F'', 0.3)]"
  by code_simp

subsection \<open>The first entries of the sorted list\<close>

lemma length_names_in_use:
  "length (names_in_use model feature_names importances) = length importances"
  by (simp add: names_in_use_def length_synthetic_names)

lemma get_feature_importance_Some:
  "feature_importances_attr (classification_stage model) = Some importances \<Longrightarrow>
   get_feature_importance model feature_names top_n =
     Inr (py_slice_to
       (sort_desc snd (zip (names_in_use model feature_names importances) importances)) top_n)"
  by (simp add: get_feature_importance_eq names_in_use_def)

lemma filter_take_prefix: "\<exists>m. filter P (take n ys) = take m (filter P ys)"
proof (induction ys arbitrary: n)
  case Nil
  show ?case by simp
next
  case (Cons y ys)
  show ?case
  proof (cases n)
    case 0
    then show ?thesis by (simp add: exI [of _ 0])
  next
    case (Suc k)
    from Cons.IH [of k] obtain m where m: "filter P (take k ys) = take m (filter P ys)" ..
    show ?thesis
    proof (cases "P y")
      case True
      with Suc m have "filter P (take n (y # ys)) = take (Suc m) (filter P (y # ys))" by simp
      then show ?thesis ..
    next
      case False
      with Suc m have "filter P (take n (y # ys)) = take m (filter P (y # ys))" by simp
      then show ?thesis ..
    qed
  qed
qed

lemma mset_minus_take: "mset ys - mset (take n ys) = mset (drop n ys)"
proof -
  have "mset ys = mset (take n ys) + mset (drop n ys)"
    by (metis append_take_drop_id mset_append)
  then show ?thesis by simp
qed

lemma sorted_take_drop:
  "sorted_wrt R ys \<Longrightarrow> x \<in> set (take n ys) \<Longrightarrow> y \<in> set (drop n ys) \<Longrightarrow> R x y"
  using sorted_wrt_append [of R "take n ys" "drop n ys"] by simp

lemma top_entries:
  assumes "0 \<le> top_n"
  shows "py_slice_to (sort_desc snd zs) top_n = take (nat top_n) (sort_desc snd zs)"
  using assms by (simp add: py_slice_to_def)

lemma slice_properties:
  fixes zs :: "(string \<times> real) list"
  assumes "0 \<le> top_n" and "xs = py_slice_to (sort_desc snd zs) top_n"
  shows "descending xs"
    and "length xs = min (nat top_n) (length zs)"
    and "mset xs \<subseteq># mset zs"
    and "\<forall>y \<in># mset zs - mset xs. \<forall>x \<in> set xs. snd y \<le> snd x"
    and "\<forall>score. \<exists>m. filter (\<lambda>entry. snd entry = score) xs
           = take m (filter (\<lambda>entry. snd entry = score) zs)"
proof -
  let ?ys = "sort_desc snd zs"
  have xs: "xs = take (nat top_n) ?ys"
    using assms by (simp add: py_slice_to_def)
  have s: "sorted_wrt (\<lambda>a b. snd b \<le> snd a) ?ys"
    by (rule sorted_sort_desc)
  show "descending xs"
    unfolding xs descending_def using s by (rule sorted_wrt_take)
  show "length xs = min (nat top_n) (length zs)"
    unfolding xs by (simp add: length_sort_desc min.commute)
  have "mset xs \<subseteq># mset ?ys"
    unfolding xs by (metis append_take_drop_id mset_append mset_subset_eq_add_left)
  then show "mset xs \<subseteq># mset zs"
    by (simp add: mset_sort_desc)
  have "mset zs - mset xs = mset (drop (nat top_n) ?ys)"
    unfolding xs using mset_minus_take [of ?ys "nat top_n"] by (simp add: mset_sort_desc)
  then show "\<forall>y \<in># mset zs - mset xs. \<forall>x \<in> set xs. snd y \<le> snd x"
    unfolding xs using sorted_take_drop [OF s] by auto
  show "\<forall>score. \<exists>m. filter (\<lambda>entry. snd entry = score) xs
           = take m (filter (\<lambda>entry. snd entry = score) zs)"
  proof
    fix score
    from filter_take_prefix [of "\<lambda>entry. snd entry = score" "nat top_n" ?ys]
    obtain m where "filter (\<lambda>entry. snd entry = score) (take (nat top_n) ?ys)
        = take m (filter (\<lambda>entry. snd entry = score) ?ys)" ..
    then have "filter (\<lambda>entry. snd entry = score) xs
        = take m (filter (\<lambda>entry. snd entry = score) zs)"
      unfolding xs by (simp add: sort_desc_stable)
    then show "\<exists>m. filter (\<lambda>entry. snd entry = score) xs
           = take m (filter (\<lambda>entry. snd entry = score) zs)" ..
  qed
qed

lemma tie_stage:
  "feature_importances_attr (classification_stage (forest 1 0.82 [0.5, 0.7, 0.5]))
     = Some [0.5, 0.7, 0.5]"
  by (simp add: forest_stage forest_importances)

lemma tie_pairs:
  "zip (names_in_use (forest 1 0.82 [0.5, 0.7, 0.5]) [''age'', ''chol'', ''sex''] [0.5, 0.7, 0.5])
     [0.5, 0.7, 0.5]
   = [(''age'', 0.5), (''chol'', 0.7), (''sex'', 0.5)]"
  by (simp add: names_in_use_def forest_names)

lemma tie_top_value:
  "get_feature_importance (forest 1 0.82 [0.5, 0.7, 0.5]) [''age'', ''chol'', ''sex''] 2
     = Inr [(''chol'', 0.7), (''age'', 0.5)]"
  by code_simp

subsection \<open>Order, length and names of the result\<close>

text \<open>
  Claim C6, as amended. For every model, feature-name list and \<open>top_n \<ge> 0\<close>,
  \<open>get_feature_importance\<close> returns a sequence in descending order of score, each score
  at least the next one, of length at most \<open>top_n\<close>. When the classification stage has
  an importance vector, the sequence has \<open>top_n\<close> entries or, if there are fewer scores,
  as many as there are scores; its entries are entries of the list of names paired with
  scores; no entry left out has a greater score than an entry returned; and the entries
  of any one score are the first ones of that score in the paired list, in the order they
  have there, so entries of equal score keep their original order. For \<open>top_n = 0\<close>
  the function returns the empty sequence; and when the classification stage has no
  importance vector it returns the empty sequence and raises nothing.
\<close>

theorem feature_importance_sorted:
  "(0 \<le> top_n \<longrightarrow>
      (\<exists>xs. get_feature_importance model feature_names top_n = Inr xs \<and> descending xs
         \<and> int (length xs) \<le> top_n
         \<and> (\<forall>importances.
              feature_importances_attr (classification_stage model) = Some importances \<longrightarrow>
                length xs = min (nat top_n) (length importances)
              \<and> mset xs
                  \<subseteq># mset (zip (names_in_use model feature_names importances) importances)
              \<and> (\<forall>y \<in># mset (zip (names_in_use model feature_names importances) importances)
                          - mset xs.
                    \<forall>x \<in> set xs. snd y \<le> snd x)
              \<and> (\<forall>score. \<exists>m. filter (\<lambda>entry. snd entry = score) xs
                    = take m (filter (\<lambda>entry. snd entry = score)
                        (zip (names_in_use model feature_names importances) importances))))))
   \<and> get_feature_importance model feature_names 0 = Inr []
   \<and> (feature_importances_attr (classification_stage model) = None \<longrightarrow>
        get_feature_importance model feature_names top_n = Inr [])"
proof (intro conjI impI)
  assume n: "0 \<le> top_n"
  show "\<exists>xs. get_feature_importance model feature_names top_n = Inr xs \<and> descending xs
         \<and> int (length xs) \<le> top_n
         \<and> (\<forall>importances.
              feature_importances_attr (classification_stage model) = Some importances \<longrightarrow>
                length xs = min (nat top_n) (length importances)
              \<and> mset xs
                  \<subseteq># mset (zip (names_in_use model feature_names importances) importances)
              \<and> (\<forall>y \<in># mset (zip (names_in_use model feature_names importances) importances)
                          - mset xs.
                    \<forall>x \<in> set xs. snd y \<le> snd x)
              \<and> (\<forall>score. \<exists>m. filter (\<lambda>entry. snd entry = score) xs
                    = take m (filter (\<lambda>entry. snd entry = score)
                        (zip (names_in_use model feature_names importances) importances))))"
  proof (cases "feature_importances_attr (classification_stage model)")
    case None
    with n show ?thesis by (simp add: get_feature_importance_eq descending_def)
  next
    case (Some importances)
    let ?zs = "zip (names_in_use model feature_names importances) importances"
    let ?xs = "py_slice_to (sort_desc snd ?zs) top_n"
    note p = slice_properties [OF n refl [of ?xs]]
    have v: "get_feature_importance model feature_names top_n = Inr ?xs"
      using Some by (rule get_feature_importance_Some)
    have l: "length ?xs = min (nat top_n) (length importances)"
      using p(2) by (simp add: length_names_in_use)
    have "int (length ?xs) \<le> top_n"
      using n l by simp
    with v p(1) l p(3,4,5) Some show ?thesis
      by (intro exI [of _ ?xs]) simp
  qed
next
  show "get_feature_importance model feature_names 0 = Inr []"
    by (simp add: get_feature_importance_eq py_slice_to_def split: option.splits)
next
  assume "feature_importances_attr (classification_stage model) = None"
  then show "get_feature_importance model feature_names top_n = Inr []"
    by (simp add: get_feature_importance_eq)
qed

theorem feature_importance_sorted_witness:
  "(0::int) \<le> 2
   \<and> feature_importances_attr (classification_stage (forest 1 0.82 [0.5, 0.7, 0.5]))
       = Some [0.5, 0.7, 0.5]
   \<and> get_feature_importance (forest 1 0.82 [0.5, 0.7, 0.5]) [''age'', ''chol'', ''sex''] 2
       = Inr [(''chol'', 0.7), (''age'', 0.5)]
   \<and> descending [(''chol'', 0.7), (''age'', 0.5)]
   \<and> length [(''chol'', 0.7 :: real), (''age'', 0.5)] = min (nat 2) (length [0.5, 0.7, 0.5 :: real])
   \<and> (''sex'', 0.5) \<in># mset [(''age'', 0.5), (''chol'', 0.7), (''sex'', 0.5 :: real)]
         - mset [(''chol'', 0.7), (''age'', 0.5)]
   \<and> snd (''sex'', 0.5 :: real) \<le> snd (''chol'', 0.7 :: real)
   \<and> snd (''sex'', 0.5 :: real) \<le> snd (''age'', 0.5 :: real)
   \<and> (\<exists>m. filter (\<lambda>entry. snd entry = 0.5) [(''chol'', 0.7 :: real), (''age'', 0.5)]
         = take m (filter (\<lambda>entry. snd entry = 0.5)
             [(''age'', 0.5), (''chol'', 0.7), (''sex'', 0.5)]))
   \<and> feature_importances_attr (classification_stage py_None) = None
   \<and> get_feature_importance py_None [''age''] 2 = Inr []"
proof -
  let ?m = "forest 1 0.82 [0.5, 0.7, 0.5]"
  let ?xs = "[(''chol'', 0.7 :: real), (''age'', 0.5)]"
  let ?zs = "[(''age'', 0.5 :: real), (''chol'', 0.7), (''sex'', 0.5)]"
  have n: "feature_importances_attr (classification_stage py_None) = None"
    by (simp add: classification_stage_def py_None_def)
  have z: "(0::int) \<le> 2" by simp
  from feature_importance_sorted [of 2 ?m "[''age'', ''chol'', ''sex'']"] z
  obtain xs where v: "get_feature_importance ?m [''age'', ''chol'', ''sex''] 2 = Inr xs"
    and d: "descending xs"
    and a: "\<forall>importances.
              feature_importances_attr (classification_stage ?m) = Some importances \<longrightarrow>
                length xs = min (nat 2) (length importances)
              \<and> mset xs
                  \<subseteq># mset (zip (names_in_use ?m [''age'', ''chol'', ''sex''] importances)
                       importances)
              \<and> (\<forall>y \<in># mset (zip (names_in_use ?m [''age'', ''chol'', ''sex''] importances)
                            importances) - mset xs.
                    \<forall>x \<in> set xs. snd y \<le> snd x)
              \<and> (\<forall>score. \<exists>m. filter (\<lambda>entry. snd entry = score) xs
                    = take m (filter (\<lambda>entry. snd entry = score)
                        (zip (names_in_use ?m [''age'', ''chol'', ''sex''] importances)
                           importances)))"
    by blast
  from v tie_top_value have xs: "xs = ?xs" by simp
  from a tie_stage have b: "length xs = min (nat 2) (length [0.5, 0.7, 0.5 :: real])"
    and c: "\<forall>y \<in># mset ?zs - mset xs. \<forall>x \<in> set xs. snd y \<le> snd x"
    and s: "\<forall>score. \<exists>m. filter (\<lambda>entry. snd entry = score) xs
              = take m (filter (\<lambda>entry. snd entry = score) ?zs)"
    unfolding tie_pairs [symmetric] by blast+
  have i: "(''sex'', 0.5) \<in># mset ?zs - mset ?xs" by simp
  with c have "\<forall>x \<in> set ?xs. snd (''sex'', 0.5 :: real) \<le> snd x"
    unfolding xs by blast
  then have t: "snd (''sex'', 0.5 :: real) \<le> snd (''chol'', 0.7 :: real)"
    "snd (''sex'', 0.5 :: real) \<le> snd (''age'', 0.5 :: real)"
    by simp_all
  from s have u: "\<exists>m. filter (\<lambda>entry. snd entry = 0.5) ?xs
         = take m (filter (\<lambda>entry. snd entry = 0.5) ?zs)"
    unfolding xs by blast
  from feature_importance_sorted [of 2 py_None "[''age'']"] n
  have e: "get_feature_importance py_None [''age''] 2 = Inr []" by blast
  from d have d': "descending ?xs" unfolding xs .
  from b have b': "length ?xs = min (nat 2) (length [0.5, 0.7, 0.5 :: real])" unfolding xs .
  from z tie_stage tie_top_value d' b' i t u n e show ?thesis by blast
qed


text \<open>
  The claim as stated asks for a strictly descending sequence; two features of equal
  importance come out next to each other, in the order they had.
\<close>

theorem feature_importance_ties_counterexample:
  "get_feature_importance (forest 1 0.82 [0.5, 0.5]) [''age'', ''chol''] 10
     = Inr [(''age'', 0.5), (''chol'', 0.5)]
   \<and> \<not> strictly_descending [(''age'', 0.5), (''chol'', 0.5)]"
  using tied_value by (simp add: strictly_descending_def)

text \<open>
  Claim C7, as amended. When the classification stage of the model has an importance
  vector and the names in use after the preprocessing stage was asked (the names that
  stage reports, or else the supplied names) differ in number from the importance vector,
  \<open>get_feature_importance\<close> pairs the scores with the synthetic names \<open>Feature_0\<close>,
  \<open>Feature_1\<close>, ..., \<open>Feature_{n-1}\<close>, sorts the pairs in descending order of score and
  returns the first \<open>top_n\<close>: every entry of the result is \<open>Feature_i\<close> with the score at
  index \<open>i\<close>, and when \<open>top_n\<close> is at least \<open>n\<close> all \<open>n\<close> pairs are returned.
\<close>

theorem feature_importance_synthetic:
  assumes "feature_importances_attr (classification_stage model) = Some importances"
    and "length (names_after_preprocessor model feature_names) \<noteq> length importances"
  shows "\<exists>xs. get_feature_importance model feature_names top_n = Inr xs
     \<and> xs = py_slice_to
         (sort_desc snd (zip (synthetic_names (length importances)) importances)) top_n
     \<and> descending xs
     \<and> (\<forall>(name, score) \<in> set xs. \<exists>i < length importances.
           name = ''Feature_'' @ string_of_nat i \<and> score = importances ! i)
     \<and> (int (length importances) \<le> top_n \<longrightarrow>
           mset xs = mset (zip (synthetic_names (length importances)) importances))"
proof -
  let ?zs = "zip (synthetic_names (length importances)) importances"
  let ?xs = "py_slice_to (sort_desc snd ?zs) top_n"
  have v: "get_feature_importance model feature_names top_n = Inr ?xs"
    using assms by (simp add: get_feature_importance_eq)
  have d: "descending ?xs"
    by (rule descending_slice) (simp add: descending_def sorted_sort_desc)
  have sub: "set ?xs \<subseteq> set ?zs"
    using set_slice [of "sort_desc snd ?zs" top_n] by (simp add: set_sort_desc)
  have m: "\<forall>(name, score) \<in> set ?xs. \<exists>i < length importances.
           name = ''Feature_'' @ string_of_nat i \<and> score = importances ! i"
  proof (clarify)
    fix name score
    assume "(name, score) \<in> set ?xs"
    with sub have "(name, score) \<in> set ?zs" by blast
    then obtain i where "synthetic_names (length importances) ! i = name"
      "importances ! i = score" "i < length importances"
      by (auto simp: in_set_zip length_synthetic_names)
    then show "\<exists>i < length importances.
           name = ''Feature_'' @ string_of_nat i \<and> score = importances ! i"
      using synthetic_names_nth [of i "length importances"] by auto
  qed
  have a: "int (length importances) \<le> top_n \<longrightarrow> mset ?xs = mset ?zs"
    by (simp add: slice_all length_sort_desc length_synthetic_names mset_sort_desc)
  show ?thesis using v d m a by blast
qed

theorem feature_importance_synthetic_witness:
  "feature_importances_attr (classification_stage (forest 1 0.82 [0.1, 0.4, 0.2, 0.25, 0.05]))
     = Some [0.1, 0.4, 0.2, 0.25, 0.05]
   \<and> length (names_after_preprocessor (forest 1 0.82 [0.1, 0.4, 0.2, 0.25, 0.05])
        [''age'', ''chol'', ''sex'']) \<noteq> length [0.1, 0.4, 0.2, 0.25, 0.05 :: real]
   \<and> get_feature_importance (forest 1 0.82 [0.1, 0.4, 0.2, 0.25, 0.05])
        [''age'', ''chol'', ''sex''] 10
     = Inr [(''Feature_1'', 0.4), (''Feature_3'', 0.25), (''Feature_2'', 0.2),
          (''Feature_0'', 0.1), (''Feature_4'', 0.05)]"
proof -
  let ?m = "forest 1 0.82 [0.1, 0.4, 0.2, 0.25, 0.05]"
  have a: "feature_importances_attr (classification_stage ?m) = Some [0.1, 0.4, 0.2, 0.25, 0.05]"
    by (simp add: forest_stage forest_importances)
  have b: "length (names_after_preprocessor ?m [''age'', ''chol'', ''sex''])
             \<noteq> length [0.1, 0.4, 0.2, 0.25, 0.05 :: real]"
    by (simp add: forest_names)
  have c: "py_slice_to
             (sort_desc snd (zip (synthetic_names (length [0.1, 0.4, 0.2, 0.25, 0.05 :: real]))
                [0.1, 0.4, 0.2, 0.25, 0.05])) 10
     = [(''Feature_1'', 0.4), (''Feature_3'', 0.25), (''Feature_2'', 0.2),
          (''Feature_0'', 0.1), (''Feature_4'', 0.05)]"
    by code_simp
  from feature_importance_synthetic [OF a b, of 10] obtain xs where
    "get_feature_importance ?m [''age'', ''chol'', ''sex''] 10 = Inr xs"
    "xs = py_slice_to
            (sort_desc snd (zip (synthetic_names (length [0.1, 0.4, 0.2, 0.25, 0.05 :: real]))
               [0.1, 0.4, 0.2, 0.25, 0.05])) 10"
    by blast
  with c have "get_feature_importance ?m [''age'', ''chol'', ''sex''] 10
     = Inr [(''Feature_1'', 0.4), (''Feature_3'', 0.25), (''Feature_2'', 0.2),
          (''Feature_0'', 0.1), (''Feature_4'', 0.05)]"
    by simp
  with a b show ?thesis by blast
qed

text \<open>
  The claim as stated fails on a pipeline: one supplied name against two scores, yet the
  result carries the two names that the preprocessing stage reports, not \<open>Feature_0\<close>
  and \<open>Feature_1\<close>.
\<close>

theorem feature_importance_pipeline_counterexample:
  "feature_importances_attr (classification_stage
      (pipeline (column_transformer [''num__age'', ''cat__sex_F'']) (forest 1 0.82 [0.7, 0.3])))
     = Some [0.7, 0.3]
   \<and> length [''age''] \<noteq> length [0.7, 0.3 :: real]
   \<and> get_feature_importance
      (pipeline (column_transformer [''num__age'', ''cat__sex_F'']) (forest 1 0.82 [0.7, 0.3]))
      [''age''] 10
     = Inr [(''num__age'', 0.7), (''cat__sex_F'', 0.3)]
   \<and> [(''num__age'', 0.7), (''cat__sex_F'', 0.3)]
     \<noteq> [(''Feature_0'', 0.7 :: real), (''Feature_1'', 0.3)]"
proof -
  have "feature_importances_attr (classification_stage
      (pipeline (column_transformer [''num__age'', ''cat__sex_F'']) (forest 1 0.82 [0.7, 0.3])))
     = Some [0.7, 0.3]"
    by (simp add: classification_stage_def pipeline_def forest_importances)
  then show ?thesis using pipeline_value by simp
qed

end
